theory Spec2Isabelle
  imports Main "HOL-Library.AList" "HOL-Library.Sublist"
begin

section \<open>The response writer seen by a handler\<close>

text \<open>
  The handlers of \<^verbatim>\<open>main.go\<close> act on an \<^verbatim>\<open>http.ResponseWriter\<close>. The model keeps
  what a handler can do to it through that interface: the header map it may still edit
  (\<open>header\<close>), whether the status line has gone out (\<open>wroteHeader\<close>), the status and the
  snapshot of the header map taken at that moment (\<open>status\<close>, \<open>sentHeader\<close>), and the
  bytes handed to \<^verbatim>\<open>Write\<close> (\<open>written\<close>). Header keys are the canonical ones the source
  uses and each key holds one value, which is what \<^verbatim>\<open>Header().Set\<close> leaves behind.
  What the transport does below the interface (dropping the body of a HEAD response,
  enforcing a declared Content-Length, chunking) is outside the model.
\<close>

record responseWriter =
  header :: "(string \<times> string) list"
  wroteHeader :: bool
  status :: nat
  sentHeader :: "(string \<times> string) list"
  written :: string

definition newResponseWriter :: responseWriter where
  "newResponseWriter =
     \<lparr>header = [], wroteHeader = False, status = 0, sentHeader = [], written = []\<rparr>"

text \<open>
  \<^verbatim>\<open>WriteHeader\<close> of net/http: only the first call counts, a later one is reported as
  superfluous and ignored. \<^verbatim>\<open>Write\<close> sends status 200 first when no header has been
  written yet.
\<close>

definition rw_WriteHeader :: "nat \<Rightarrow> responseWriter \<Rightarrow> responseWriter" where
  "rw_WriteHeader code w =
     (if wroteHeader w then w
      else w\<lparr>wroteHeader := True, status := code, sentHeader := header w\<rparr>)"

definition rw_Write :: "string \<Rightarrow> responseWriter \<Rightarrow> responseWriter" where
  "rw_Write b w =
     (let w' = (if wroteHeader w then w else rw_WriteHeader 200 w)
      in w'\<lparr>written := written w' @ b\<rparr>)"

text \<open>
  \<^verbatim>\<open>responseLogger\<close> of gorilla/handlers: the wrapper that the combined logging handler
  puts around the writer. It starts at status 200 and size 0, records the argument of
  every \<^verbatim>\<open>WriteHeader\<close> call and adds up the sizes of the writes.
\<close>

record responseLogger =
  lstatus :: nat
  lsize :: nat

datatype level = FatalLevel | ErrorLevel | InfoLevel | DebugLevel

text \<open>
  Everything the process prints goes to standard output: logrus entries (with their
  severity) and the access lines of the combined logging handler. An access line is kept
  as the parameters it is formatted from: the request (client address, method, URI,
  protocol, referrer, user agent) and the status and size read from the
  \<open>responseLogger\<close>; the time stamp is left out.
\<close>

record request =
  httpMethod :: string
  requestURI :: string
  path :: string
  rawQuery :: string
  body :: string
  remoteAddr :: string
  proto :: string
  referer :: string
  userAgent :: string

datatype out_line =
    Logrus level string
  | Access request nat nat

record world =
  rw :: responseWriter
  lg :: "responseLogger option"
  stdout :: "out_line list"

definition newWorld :: world where
  "newWorld = \<lparr>rw = newResponseWriter, lg = None, stdout = []\<rparr>"

text \<open>
  The writer operations as the handler calls them: when a \<open>responseLogger\<close> is
  installed (\<open>lg\<close> is \<open>Some\<close>), the call passes through it to the underlying writer.
\<close>

definition Header_Set :: "string \<Rightarrow> string \<Rightarrow> world \<Rightarrow> world" where
  "Header_Set k v s = s\<lparr>rw := (rw s)\<lparr>header := AList.update k v (header (rw s))\<rparr>\<rparr>"

definition WriteHeader :: "nat \<Rightarrow> world \<Rightarrow> world" where
  "WriteHeader code s =
     s\<lparr>rw := rw_WriteHeader code (rw s),
       lg := map_option (\<lambda>l. l\<lparr>lstatus := code\<rparr>) (lg s)\<rparr>"

definition Write :: "string \<Rightarrow> world \<Rightarrow> world" where
  "Write b s =
     s\<lparr>rw := rw_Write b (rw s),
       lg := map_option (\<lambda>l. l\<lparr>lsize := lsize l + length b\<rparr>) (lg s)\<rparr>"

definition log_Error :: "string \<Rightarrow> world \<Rightarrow> world" where
  "log_Error msg s = s\<lparr>stdout := stdout s @ [Logrus ErrorLevel msg]\<rparr>"

section \<open>Library functions behind the redirect\<close>

text \<open>
  \<^verbatim>\<open>catchAllHandler\<close> is one call of \<^verbatim>\<open>http.Redirect\<close>, and what that call puts in the
  \<^verbatim>\<open>Location\<close> header is decided inside the Go library. The functions below follow the
  library sources (net/url, path and net/http of Go 1.21; further down gorilla/mux 1.8
  and gorilla/handlers 1.5) byte by byte; strings are byte strings.
\<close>

definition isAlpha :: "char \<Rightarrow> bool" where
  "isAlpha c = ((97 \<le> (of_char c :: nat) \<and> (of_char c :: nat) \<le> 122) \<or>
                (65 \<le> (of_char c :: nat) \<and> (of_char c :: nat) \<le> 90))"

definition isDigit :: "char \<Rightarrow> bool" where
  "isDigit c = (48 \<le> (of_char c :: nat) \<and> (of_char c :: nat) \<le> 57)"

definition ishex :: "char \<Rightarrow> bool" where
  "ishex c = (isDigit c \<or> (97 \<le> (of_char c :: nat) \<and> (of_char c :: nat) \<le> 102) \<or>
              (65 \<le> (of_char c :: nat) \<and> (of_char c :: nat) \<le> 70))"

text \<open>\<^verbatim>\<open>stringContainsCTLByte\<close> of net/url: a byte below space, or DEL.\<close>

definition stringContainsCTLByte :: "string \<Rightarrow> bool" where
  "stringContainsCTLByte s =
     list_ex (\<lambda>c. (of_char c :: nat) < 32 \<or> (of_char c :: nat) = 127) s"

text \<open>
  \<^verbatim>\<open>getScheme\<close> of net/url. \<open>acc\<close> is the prefix read so far (empty exactly when the
  index is 0); \<open>None\<close> is the error \<^verbatim>\<open>missing protocol scheme\<close>, otherwise the scheme and
  the rest.
\<close>

fun getScheme_from :: "string \<Rightarrow> string \<Rightarrow> string \<Rightarrow> (string \<times> string) option" where
  "getScheme_from rawURL acc [] = Some ([], rawURL)"
| "getScheme_from rawURL acc (c # cs) =
     (if isAlpha c then getScheme_from rawURL (acc @ [c]) cs
      else if isDigit c \<or> c = CHR ''+'' \<or> c = CHR ''-'' \<or> c = CHR ''.'' then
        (if acc = [] then Some ([], rawURL) else getScheme_from rawURL (acc @ [c]) cs)
      else if c = CHR '':'' then
        (if acc = [] then None else Some (acc, cs))
      else Some ([], rawURL))"

definition getScheme :: "string \<Rightarrow> (string \<times> string) option" where
  "getScheme rawURL = getScheme_from rawURL [] rawURL"

text \<open>
  \<^verbatim>\<open>unescape\<close> of net/url in the modes used for a path, a fragment and user
  information fails exactly when a percent sign is not followed by two hex digits.
\<close>

fun validEscapes :: "string \<Rightarrow> bool" where
  "validEscapes [] = True"
| "validEscapes (c # cs) =
     (if c = CHR ''%'' then
        (case cs of
           a # b # rest \<Rightarrow> ishex a \<and> ishex b \<and> validEscapes rest
         | _ \<Rightarrow> False)
      else validEscapes cs)"

text \<open>\<^verbatim>\<open>validUserinfo\<close> of net/url.\<close>

definition validUserinfo :: "string \<Rightarrow> bool" where
  "validUserinfo s =
     list_all (\<lambda>c. isAlpha c \<or> isDigit c \<or> c \<in> set ''-._:~!$&'' \<or> c = CHR 0x27 \<or>
                    c \<in> set ''()*+,;=%@'') s"

text \<open>
  The part of \<^verbatim>\<open>parseAuthority\<close> that matters below: does it succeed with an empty
  host? The host is what follows the last \<^verbatim>\<open>@\<close>; a host that is not empty is either
  rejected or returned not empty. With an empty host \<^verbatim>\<open>parseHost\<close> succeeds, and the
  user information in front of the \<^verbatim>\<open>@\<close>, if there is one, must be valid and unescape.
\<close>

definition authorityWithEmptyHost :: "string \<Rightarrow> bool" where
  "authorityWithEmptyHost authority =
     (if CHR ''@'' \<notin> set authority then authority = []
      else
        (let host = rev (takeWhile (\<lambda>c. c \<noteq> CHR ''@'') (rev authority));
             userinfo = rev (drop 1 (dropWhile (\<lambda>c. c \<noteq> CHR ''@'') (rev authority)))
         in host = [] \<and> validUserinfo userinfo \<and>
            (if CHR '':'' \<notin> set userinfo then validEscapes userinfo
             else validEscapes (takeWhile (\<lambda>c. c \<noteq> CHR '':'') userinfo) \<and>
                  validEscapes (drop 1 (dropWhile (\<lambda>c. c \<noteq> CHR '':'') userinfo)))))"

text \<open>
  The test \<^verbatim>\<open>http.Redirect\<close> makes on its target: \<^verbatim>\<open>url.Parse\<close> succeeds and the result
  has neither scheme nor host. This follows \<^verbatim>\<open>Parse\<close> and \<^verbatim>\<open>parse\<close> of net/url branch by
  branch: the fragment is cut off at the first \<^verbatim>\<open>#\<close>; a control byte is an error; \<^verbatim>\<open>*\<close>
  is a path; \<^verbatim>\<open>getScheme\<close> splits off the scheme; the query is cut off at the first \<^verbatim>\<open>?\<close>;
  a rest without leading slash must not have a colon in its first segment; a rest that
  starts with two but not three slashes has an authority; the path and the fragment
  must unescape.
\<close>

definition relativeReference :: "string \<Rightarrow> bool" where
  "relativeReference rawURL =
     (let u = takeWhile (\<lambda>c. c \<noteq> CHR ''#'') rawURL;
          frag = drop 1 (dropWhile (\<lambda>c. c \<noteq> CHR ''#'') rawURL)
      in if stringContainsCTLByte u then False
         else if u = ''*'' then validEscapes frag
         else
           (case getScheme u of
              None \<Rightarrow> False
            | Some (scheme, rest0) \<Rightarrow>
                if scheme \<noteq> [] then False
                else
                  (let rest = takeWhile (\<lambda>c. c \<noteq> CHR ''?'') rest0
                   in if \<not> prefix ''/'' rest \<and>
                         CHR '':'' \<in> set (takeWhile (\<lambda>c. c \<noteq> CHR ''/'') rest)
                      then False
                      else if prefix ''//'' rest \<and> \<not> prefix ''///'' rest then
                        authorityWithEmptyHost
                            (takeWhile (\<lambda>c. c \<noteq> CHR ''/'') (drop 2 rest)) \<and>
                          validEscapes (dropWhile (\<lambda>c. c \<noteq> CHR ''/'') (drop 2 rest)) \<and>
                          validEscapes frag
                      else validEscapes rest \<and> validEscapes frag)))"

text \<open>
  \<^verbatim>\<open>path.Clean\<close>: the path is read element by element (the pieces between slashes).
  Empty elements and \<^verbatim>\<open>.\<close> are dropped; \<^verbatim>\<open>..\<close> removes the last element kept, is
  dropped at the root of a rooted path, and is kept at the front of a path that is not
  rooted; an empty result is \<^verbatim>\<open>.\<close>. \<open>stack\<close> holds the elements kept, last first, and
  \<open>dotdots\<close> the number of leading \<^verbatim>\<open>..\<close> elements kept below them.
\<close>

fun splitSlash :: "string \<Rightarrow> string \<Rightarrow> string list" where
  "splitSlash acc [] = [acc]"
| "splitSlash acc (c # cs) =
     (if c = CHR ''/'' then acc # splitSlash [] cs else splitSlash (acc @ [c]) cs)"

fun joinSlash :: "string list \<Rightarrow> string" where
  "joinSlash [] = []"
| "joinSlash [e] = e"
| "joinSlash (e # es) = e @ CHR ''/'' # joinSlash es"

fun cleanElems :: "bool \<Rightarrow> nat \<Rightarrow> string list \<Rightarrow> string list \<Rightarrow> string list" where
  "cleanElems rooted dotdots stack [] = replicate dotdots ''..'' @ rev stack"
| "cleanElems rooted dotdots stack (e # es) =
     (if e = [] \<or> e = ''.'' then cleanElems rooted dotdots stack es
      else if e = ''..'' then
        (case stack of
           _ # stack' \<Rightarrow> cleanElems rooted dotdots stack' es
         | [] \<Rightarrow> if rooted then cleanElems rooted dotdots [] es
                 else cleanElems rooted (Suc dotdots) [] es)
      else cleanElems rooted dotdots (e # stack) es)"

definition path_Clean :: "string \<Rightarrow> string" where
  "path_Clean p =
     (if p = [] then ''.''
      else if hd p = CHR ''/'' then CHR ''/'' # joinSlash (cleanElems True 0 [] (splitSlash [] p))
      else (let out = joinSlash (cleanElems False 0 [] (splitSlash [] p))
            in if out = [] then ''.'' else out))"

text \<open>\<^verbatim>\<open>path.Split\<close>, first result: the path up to and including its last slash.\<close>

definition path_Split_dir :: "string \<Rightarrow> string" where
  "path_Split_dir p = rev (dropWhile (\<lambda>c. c \<noteq> CHR ''/'') (rev p))"

text \<open>
  \<^verbatim>\<open>hexEscapeNonASCII\<close> of net/http: a byte from 0x80 on becomes a percent sign and its
  two lower case hex digits.
\<close>

definition lowerhex :: "nat \<Rightarrow> char" where
  "lowerhex n = ''0123456789abcdef'' ! (n mod 16)"

definition upperhex :: "nat \<Rightarrow> char" where
  "upperhex n = ''0123456789ABCDEF'' ! (n mod 16)"

definition hexEscapeNonASCII :: "string \<Rightarrow> string" where
  "hexEscapeNonASCII s =
     concat (map (\<lambda>c. if 128 \<le> (of_char c :: nat)
                       then [CHR ''%'', lowerhex ((of_char c :: nat) div 16), lowerhex (of_char c)]
                       else [c]) s)"

text \<open>\<^verbatim>\<open>htmlEscape\<close> of net/http.\<close>

definition htmlEscape :: "string \<Rightarrow> string" where
  "htmlEscape s =
     concat (map (\<lambda>c. if c = CHR ''&'' then ''&amp;''
                       else if c = CHR ''<'' then ''&lt;''
                       else if c = CHR ''>'' then ''&gt;''
                       else if c = CHR 0x22 then ''&#34;''
                       else if c = CHR 0x27 then ''&#39;''
                       else [c]) s)"

section \<open>Handlers\<close>

text \<open>
  A handler runs on a request and the world and either returns (\<open>None\<close>) or panics with a
  value (\<open>Some v\<close>, \<open>v\<close> being the value as \<^verbatim>\<open>%s\<close> prints it); in both cases the effects it
  had on the writer and on standard output up to that point stay.
\<close>

type_synonym handler = "request \<Rightarrow> world \<Rightarrow> world \<times> string option"

text \<open>
  \<^verbatim>\<open>http.Error\<close>: sets the content type and the nosniff option, writes the status, then
  prints the message with \<^verbatim>\<open>Fprintln\<close>, that is, followed by a newline.
\<close>

definition http_Error :: "string \<Rightarrow> nat \<Rightarrow> world \<Rightarrow> world" where
  "http_Error msg code s =
     Write (msg @ [CHR 0x0A])
       (WriteHeader code
         (Header_Set ''X-Content-Type-Options'' ''nosniff''
           (Header_Set ''Content-Type'' ''text/plain; charset=utf-8'' s)))"

text \<open>
  \<^verbatim>\<open>logError\<close> (main.go, lines 92 to 100). \<open>stack\<close> is what \<^verbatim>\<open>debug.Stack()\<close> returns at
  the call.
\<close>

definition logError :: "string \<Rightarrow> string \<Rightarrow> bool \<Rightarrow> world \<Rightarrow> world" where
  "logError stack err withTrace s =
     (let s1 = Header_Set ''Connection'' ''close'' s;
          errorText = err;
          s2 = log_Error errorText s1;
          s3 = (if withTrace then log_Error stack s2 else s2)
      in http_Error ''There was an error processing your request'' 500 s3)"

text \<open>
  \<^verbatim>\<open>recoverPanic\<close> (main.go, lines 102 to 111): the deferred function runs when \<open>next\<close>
  returns or panics; \<^verbatim>\<open>recover()\<close> gives the panic value, and the wrapper returns
  normally afterwards. A panic value is never \<^verbatim>\<open>nil\<close> here (Go turns \<^verbatim>\<open>panic(nil)\<close> into a
  runtime error since version 1.21), so \<^verbatim>\<open>err != nil\<close> holds whenever \<open>next\<close> panicked.
  \<^verbatim>\<open>fmt.Errorf("%s", err)\<close> and then \<^verbatim>\<open>fmt.Sprintf("%v", ...)\<close> in \<open>logError\<close> give back the
  value as \<^verbatim>\<open>%s\<close> prints it.
\<close>

definition recoverPanic :: "string \<Rightarrow> handler \<Rightarrow> handler" where
  "recoverPanic stack next r s =
     (case next r s of
        (s', None) \<Rightarrow> (s', None)
      | (s', Some err) \<Rightarrow> (logError stack err True s', None))"

text \<open>
  \<^verbatim>\<open>loggingMiddleware\<close> (main.go, lines 88 to 90) returns the combined logging handler of
  gorilla/handlers around \<open>next\<close>. Its \<^verbatim>\<open>ServeHTTP\<close> wraps the writer in a fresh
  \<open>responseLogger\<close>, calls \<open>next\<close> with the wrapper, and then (not in a deferred call, so
  only when \<open>next\<close> returns) writes one line from the request and the logger's status and
  size. The model holds one logger at a time; \<open>loggerOf\<close> reads it back after the call.
\<close>

definition makeLogger :: responseLogger where
  "makeLogger = \<lparr>lstatus = 200, lsize = 0\<rparr>"

definition loggerOf :: "world \<Rightarrow> responseLogger" where
  "loggerOf s = (case lg s of Some l \<Rightarrow> l | None \<Rightarrow> makeLogger)"

definition CombinedLoggingHandler :: "handler \<Rightarrow> handler" where
  "CombinedLoggingHandler next r s =
     (case next r (s\<lparr>lg := Some makeLogger\<rparr>) of
        (s1, Some v) \<Rightarrow> (s1\<lparr>lg := lg s\<rparr>, Some v)
      | (s1, None) \<Rightarrow>
          (s1\<lparr>lg := lg s,
              stdout := stdout s1 @ [Access r (lstatus (loggerOf s1)) (lsize (loggerOf s1))]\<rparr>,
           None))"

definition loggingMiddleware :: "handler \<Rightarrow> handler" where
  "loggingMiddleware next = CombinedLoggingHandler next"

text \<open>
  The two \<^verbatim>\<open>r.Use\<close> calls of \<^verbatim>\<open>routes\<close> (main.go, lines 78 and 79): gorilla/mux wraps
  the handler of a matched route with the registered middlewares from the last to the
  first, so the first one registered is the outermost.
\<close>

definition middlewares :: "string \<Rightarrow> handler \<Rightarrow> handler" where
  "middlewares stack h = loggingMiddleware (recoverPanic stack h)"

section \<open>The redirect handler and the router\<close>

text \<open>
  The URL that \<^verbatim>\<open>http.Redirect\<close> sends: a target that parses without scheme and host
  is taken relative to the directory of the request path and cleaned, keeping a trailing
  slash and the query; any other target is sent as it is.
\<close>

definition redirectURL :: "request \<Rightarrow> string \<Rightarrow> string" where
  "redirectURL r url =
     (if relativeReference url then
        (let oldpath = (if path r = [] then ''/'' else path r);
             url1 = (if url = [] \<or> hd url \<noteq> CHR ''/'' then path_Split_dir oldpath @ url
                     else url);
             url2 = takeWhile (\<lambda>c. c \<noteq> CHR ''?'') url1;
             query = dropWhile (\<lambda>c. c \<noteq> CHR ''?'') url1;
             trailing = suffix ''/'' url2;
             url3 = path_Clean url2;
             url4 = (if trailing \<and> \<not> suffix ''/'' url3 then url3 @ ''/'' else url3)
         in url4 @ query)
      else url)"

text \<open>\<^verbatim>\<open>http.StatusText\<close>, the entries for the codes that occur.\<close>

definition StatusText :: "nat \<Rightarrow> string" where
  "StatusText code =
     (if code = 200 then ''OK''
      else if code = 301 then ''Moved Permanently''
      else if code = 404 then ''Not Found''
      else if code = 500 then ''Internal Server Error''
      else [])"

text \<open>
  \<^verbatim>\<open>http.Redirect\<close>: sets \<^verbatim>\<open>Location\<close>, and the content type for GET and HEAD unless
  one was set before, writes the status, and for GET a short HTML body.
\<close>

definition http_Redirect :: "request \<Rightarrow> string \<Rightarrow> nat \<Rightarrow> world \<Rightarrow> world" where
  "http_Redirect r url code s =
     (let url' = redirectURL r url;
          hadCT = (map_of (header (rw s)) ''Content-Type'' \<noteq> None);
          s1 = Header_Set ''Location'' (hexEscapeNonASCII url') s;
          s2 = (if \<not> hadCT \<and> (httpMethod r = ''GET'' \<or> httpMethod r = ''HEAD'')
                then Header_Set ''Content-Type'' ''text/html; charset=utf-8'' s1 else s1);
          s3 = WriteHeader code s2
      in if \<not> hadCT \<and> httpMethod r = ''GET''
         then Write (''<a href='' @ [CHR 0x22] @ htmlEscape url' @ [CHR 0x22] @ ''>'' @
                     StatusText code @ ''</a>.'' @ [CHR 0x0A, CHR 0x0A]) s3
         else s3)"

text \<open>
  \<^verbatim>\<open>catchAllHandler\<close> (main.go, lines 84 to 86); \<open>redirect\<close> is the package variable set
  from the \<^verbatim>\<open>-redirect\<close> flag.
\<close>

definition catchAllHandler :: "string \<Rightarrow> handler" where
  "catchAllHandler redirect r s = (http_Redirect r redirect 301 s, None)"

text \<open>
  \<^verbatim>\<open>cleanPath\<close> of gorilla/mux: the canonical form of a request path.
\<close>

definition cleanPath :: "string \<Rightarrow> string" where
  "cleanPath p =
     (if p = [] then ''/''
      else
        (let p1 = (if hd p \<noteq> CHR ''/'' then CHR ''/'' # p else p);
             np = path_Clean p1
         in if last p1 = CHR ''/'' \<and> np \<noteq> ''/'' then np @ ''/'' else np))"

text \<open>
  \<^verbatim>\<open>URL.String\<close> of net/url for the URL of an origin-form request (no scheme, host, user
  or fragment) whose path starts with a slash and has just been replaced: the path
  escaped in path mode, then the query if there is one. In path mode everything is
  escaped except letters, digits and \<^verbatim>\<open>-_.~$&+,/:;=@\<close>.
\<close>

definition shouldEscapePath :: "char \<Rightarrow> bool" where
  "shouldEscapePath c = (\<not> (isAlpha c \<or> isDigit c \<or> c \<in> set ''-_.~$&+,/:;=@''))"

definition escapePath :: "string \<Rightarrow> string" where
  "escapePath s =
     concat (map (\<lambda>c. if shouldEscapePath c
                       then [CHR ''%'', upperhex ((of_char c :: nat) div 16), upperhex (of_char c)]
                       else [c]) s)"

definition URL_String :: "request \<Rightarrow> string" where
  "URL_String r = escapePath (path r) @ (if rawQuery r = [] then [] else CHR ''?'' # rawQuery r)"

text \<open>\<^verbatim>\<open>http.NotFound\<close>, the handler mux falls back to when no route matches.\<close>

definition http_NotFound :: handler where
  "http_NotFound r s = (http_Error ''404 page not found'' 404 s, None)"

text \<open>
  \<^verbatim>\<open>routes\<close> (main.go, lines 76 to 82) returns the mux router; this is its \<^verbatim>\<open>ServeHTTP\<close>.
  The router was not told to skip cleaning, so a request whose path is not in canonical
  form is answered by the router itself with a 301 to the cleaned URL, without any
  middleware or handler. Otherwise the only route, \<^verbatim>\<open>PathPrefix("/")\<close>, matches a path
  that starts with a slash and its handler runs inside the middlewares.
\<close>

definition routes :: "string \<Rightarrow> string \<Rightarrow> handler" where
  "routes redirect stack r s =
     (let p = cleanPath (path r)
      in if p \<noteq> path r then
           (WriteHeader 301 (Header_Set ''Location'' (URL_String (r\<lparr>path := p\<rparr>)) s), None)
         else if prefix ''/'' (path r) then middlewares stack (catchAllHandler redirect) r s
         else http_NotFound r s)"

section \<open>Handlers as programs over the writer interface\<close>

text \<open>
  A Go handler receives the writer as an interface value: all it can do to the response
  is call \<^verbatim>\<open>Header()\<close>, \<^verbatim>\<open>WriteHeader\<close> and \<^verbatim>\<open>Write\<close> on whatever it was handed, and it
  cannot tell the server's writer from a wrapper around it. A \<open>prog\<close> is such a handler
  body, call by call: it may set a header, read the header map and go on depending on
  it, write the status, write to the body, log at error severity, and it ends by
  returning or by panicking. \<open>exec\<close> runs it on the world, every writer call going
  through the wrapper that is installed at that moment.
\<close>

datatype prog =
    Done
  | Panic string
  | SetHeader string string prog
  | ReadHeader "(string \<times> string) list \<Rightarrow> prog"
  | CallWriteHeader nat prog
  | CallWrite string prog
  | LogError string prog

primrec exec :: "prog \<Rightarrow> world \<Rightarrow> world \<times> string option" where
  "exec Done s = (s, None)"
| "exec (Panic v) s = (s, Some v)"
| "exec (SetHeader k v p) s = exec p (Header_Set k v s)"
| "exec (ReadHeader f) s = exec (f (header (rw s))) s"
| "exec (CallWriteHeader code p) s = exec p (WriteHeader code s)"
| "exec (CallWrite b p) s = exec p (Write b s)"
| "exec (LogError msg p) s = exec p (log_Error msg s)"

text \<open>
  What the access line is expected to show as status: the argument of the last
  \<^verbatim>\<open>WriteHeader\<close> call the handler makes, and \<open>st\<close> when it makes none. \<open>h\<close> is the header
  map the handler sees, which only its own \<^verbatim>\<open>Set\<close> calls change.
\<close>

primrec lastWriteHeader :: "prog \<Rightarrow> (string \<times> string) list \<Rightarrow> nat \<Rightarrow> nat" where
  "lastWriteHeader Done h st = st"
| "lastWriteHeader (Panic v) h st = st"
| "lastWriteHeader (SetHeader k v p) h st = lastWriteHeader p (AList.update k v h) st"
| "lastWriteHeader (ReadHeader f) h st = lastWriteHeader (f h) h st"
| "lastWriteHeader (CallWriteHeader code p) h st = lastWriteHeader p h code"
| "lastWriteHeader (CallWrite b p) h st = lastWriteHeader p h st"
| "lastWriteHeader (LogError msg p) h st = lastWriteHeader p h st"

text \<open>
  The bodies of the handlers of \<^verbatim>\<open>main.go\<close> as programs: \<^verbatim>\<open>http.Error\<close> and \<open>logError\<close>
  followed by \<open>k\<close>, the deferred recovery of \<open>recoverPanic\<close> around a body, and
  \<^verbatim>\<open>http.Redirect\<close>. They are the same calls as in \<open>http_Error\<close>, \<open>logError\<close>,
  \<open>recoverPanic\<close> and \<open>http_Redirect\<close> above.
\<close>

definition http_Error_prog :: "string \<Rightarrow> nat \<Rightarrow> prog \<Rightarrow> prog" where
  "http_Error_prog msg code k =
     SetHeader ''Content-Type'' ''text/plain; charset=utf-8''
       (SetHeader ''X-Content-Type-Options'' ''nosniff''
         (CallWriteHeader code (CallWrite (msg @ [CHR 0x0A]) k)))"

definition logError_prog :: "string \<Rightarrow> string \<Rightarrow> bool \<Rightarrow> prog \<Rightarrow> prog" where
  "logError_prog stack err withTrace k =
     SetHeader ''Connection'' ''close''
       (LogError err
         (if withTrace
          then LogError stack
                 (http_Error_prog ''There was an error processing your request'' 500 k)
          else http_Error_prog ''There was an error processing your request'' 500 k))"

primrec recoverPanic_prog :: "string \<Rightarrow> prog \<Rightarrow> prog" where
  "recoverPanic_prog stack Done = Done"
| "recoverPanic_prog stack (Panic v) = logError_prog stack v True Done"
| "recoverPanic_prog stack (SetHeader k v p) = SetHeader k v (recoverPanic_prog stack p)"
| "recoverPanic_prog stack (ReadHeader f) = ReadHeader (\<lambda>h. recoverPanic_prog stack (f h))"
| "recoverPanic_prog stack (CallWriteHeader code p) =
     CallWriteHeader code (recoverPanic_prog stack p)"
| "recoverPanic_prog stack (CallWrite b p) = CallWrite b (recoverPanic_prog stack p)"
| "recoverPanic_prog stack (LogError msg p) = LogError msg (recoverPanic_prog stack p)"

definition http_Redirect_prog :: "request \<Rightarrow> string \<Rightarrow> nat \<Rightarrow> prog" where
  "http_Redirect_prog r url code =
     ReadHeader (\<lambda>h.
       (let url' = redirectURL r url;
            hadCT = (map_of h ''Content-Type'' \<noteq> None);
            rest = CallWriteHeader code
                     (if \<not> hadCT \<and> httpMethod r = ''GET''
                      then CallWrite (''<a href='' @ [CHR 0x22] @ htmlEscape url' @ [CHR 0x22] @
                                      ''>'' @ StatusText code @ ''</a>.'' @
                                      [CHR 0x0A, CHR 0x0A]) Done
                      else Done)
        in SetHeader ''Location'' (hexEscapeNonASCII url')
             (if \<not> hadCT \<and> (httpMethod r = ''GET'' \<or> httpMethod r = ''HEAD'')
              then SetHeader ''Content-Type'' ''text/html; charset=utf-8'' rest
              else rest)))"

definition catchAllHandler_prog :: "string \<Rightarrow> request \<Rightarrow> prog" where
  "catchAllHandler_prog redirect r = http_Redirect_prog r redirect 301"

text \<open>Handlers and a request used to evaluate the definitions on concrete inputs.\<close>

definition exampleRequest :: request where
  "exampleRequest =
     \<lparr>httpMethod = ''GET'', requestURI = ''/anything?x=1'', path = ''/anything'',
      rawQuery = ''x=1'', body = [], remoteAddr = ''192.0.2.1:4711'',
      proto = ''HTTP/1.1'', referer = [], userAgent = ''curl/8.0''\<rparr>"

definition panicHandler :: handler where
  "panicHandler r s = (s, Some ''boom'')"

definition writeThenPanicHandler :: handler where
  "writeThenPanicHandler r s = (Write ''partial'' s, Some ''boom'')"

definition errorBody :: string where
  "errorBody = ''There was an error processing your request'' @ [CHR 0x0A]"

definition uncleanRequest :: request where
  "uncleanRequest =
     \<lparr>httpMethod = ''GET'', requestURI = ''//a'', path = ''//a'',
      rawQuery = [], body = [], remoteAddr = ''192.0.2.1:4711'',
      proto = ''HTTP/1.1'', referer = [], userAgent = ''curl/8.0''\<rparr>"

section \<open>The process: serving goroutine, signals, shutdown\<close>

text \<open>
  \<^verbatim>\<open>main\<close> (main.go, lines 30 to 74) as a transition system. After start-up two threads
  exist and nothing in the source synchronises them: the goroutine of lines 57 to 61,
  which sits in \<^verbatim>\<open>ListenAndServe\<close> and logs the error it returns, and the main thread,
  which blocks on the signal channel (line 66), then calls \<^verbatim>\<open>srv.Shutdown\<close> (line 69) and
  exits. What the environment and the library decide is an event: the delivery of a
  signal to the channel registered with \<^verbatim>\<open>signal.Notify\<close>, the return of
  \<^verbatim>\<open>ListenAndServe\<close> with its error, and the return of \<^verbatim>\<open>Shutdown\<close> with \<^verbatim>\<open>nil\<close> or an
  error (the context's error when the graceful timeout expired first). Time itself is
  not modelled. The steps of the two threads interleave in any order; once the process
  has exited no step is possible.
\<close>

datatype signal = SIGINT | SIGTERM

datatype main_state = Blocked | ShuttingDown | Exited nat

datatype serve_state = Serving | Returned string | Finished

record process =
  mainState :: main_state
  serveState :: serve_state
  sigc :: "signal list"
  printed :: "out_line list"

datatype event =
    Deliver signal
  | Receive
  | ShutdownReturns "string option"
  | ServeReturns string
  | ServeLogs

text \<open>
  The state after line 65: the start-up lines are logged (the debug line only in debug
  mode, where the level lets it through), the goroutine is serving, the channel of
  capacity 1 is empty and the main thread is about to block on it.
\<close>

definition started :: "string \<Rightarrow> bool \<Rightarrow> process" where
  "started host debugOutput =
     \<lparr>mainState = Blocked, serveState = Serving, sigc = [],
      printed = Logrus InfoLevel (''Starting server on '' @ host) #
                (if debugOutput then [Logrus DebugLevel ''DEBUG mode enabled''] else [])\<rparr>"

text \<open>
  One step. \<open>Deliver\<close>: the signal package sends without blocking, so a signal that
  finds the buffer full is dropped. \<open>Receive\<close>: line 66, enabled when the main thread is
  blocked and the channel holds a signal; the main thread then enters \<^verbatim>\<open>Shutdown\<close>.
  \<open>ShutdownReturns\<close>: lines 69 to 73; \<^verbatim>\<open>log.Fatal\<close> logs and exits with code 1.
  \<open>ServeReturns\<close> and \<open>ServeLogs\<close>: lines 58 and 59.
\<close>

definition step :: "event \<Rightarrow> process \<Rightarrow> process option" where
  "step e p =
     (case mainState p of
        Exited code \<Rightarrow> None
      | _ \<Rightarrow>
        (case e of
           Deliver sg \<Rightarrow>
             Some (p\<lparr>sigc := (if length (sigc p) < 1 then sigc p @ [sg] else sigc p)\<rparr>)
         | Receive \<Rightarrow>
             (if mainState p = Blocked then
                (case sigc p of
                   [] \<Rightarrow> None
                 | sg # rest \<Rightarrow> Some (p\<lparr>mainState := ShuttingDown, sigc := rest\<rparr>))
              else None)
         | ShutdownReturns res \<Rightarrow>
             (if mainState p = ShuttingDown then
                (case res of
                   Some err \<Rightarrow>
                     Some (p\<lparr>mainState := Exited 1,
                             printed := printed p @ [Logrus FatalLevel err]\<rparr>)
                 | None \<Rightarrow>
                     Some (p\<lparr>mainState := Exited 0,
                             printed := printed p @ [Logrus InfoLevel ''shutting down'']\<rparr>))
              else None)
         | ServeReturns err \<Rightarrow>
             (if serveState p = Serving then Some (p\<lparr>serveState := Returned err\<rparr>) else None)
         | ServeLogs \<Rightarrow>
             (case serveState p of
                Returned err \<Rightarrow>
                  Some (p\<lparr>serveState := Finished,
                          printed := printed p @ [Logrus ErrorLevel err]\<rparr>)
              | _ \<Rightarrow> None)))"

fun run :: "event list \<Rightarrow> process \<Rightarrow> process option" where
  "run [] p = Some p"
| "run (e # es) p = (case step e p of None \<Rightarrow> None | Some p' \<Rightarrow> run es p')"

text \<open>The text of \<^verbatim>\<open>http.ErrServerClosed\<close>.\<close>

definition ErrServerClosed :: string where
  "ErrServerClosed = ''http: Server closed''"

section \<open>Panic recovery\<close>

lemma rw_logError:
  "rw (logError stack err t s) =
     rw_Write errorBody
       (rw_WriteHeader 500
         ((rw s)\<lparr>header :=
             AList.update ''X-Content-Type-Options'' ''nosniff''
               (AList.update ''Content-Type'' ''text/plain; charset=utf-8''
                 (AList.update ''Connection'' ''close'' (header (rw s))))\<rparr>))"
  by (simp add: logError_def http_Error_def Write_def WriteHeader_def Header_Set_def
      log_Error_def errorBody_def Let_def)

lemma stdout_logError:
  "stdout (logError stack err t s) =
     stdout s @ Logrus ErrorLevel err # (if t then [Logrus ErrorLevel stack] else [])"
  by (simp add: logError_def http_Error_def Write_def WriteHeader_def Header_Set_def
      log_Error_def Let_def)

lemma lg_logError:
  "lg (logError stack err t s) =
     map_option (\<lambda>l. \<lparr>lstatus = 500, lsize = lsize l + length errorBody\<rparr>) (lg s)"
  by (cases "lg s")
     (simp_all add: logError_def http_Error_def Write_def WriteHeader_def Header_Set_def
      log_Error_def errorBody_def Let_def)

text \<open>
  C3: a panic raised by the wrapped handler never propagates past the panic-recovery
  middleware: whatever the wrapped handler, the request and the state are, the wrapper
  returns normally, and so does the whole middleware chain that the router runs, so the
  thread that serves the request goes on.
\<close>

theorem recoverPanic_never_panics:
  "snd (recoverPanic stack next r s) = None \<and> snd (middlewares stack next r s) = None"
  by (simp add: middlewares_def loggingMiddleware_def CombinedLoggingHandler_def
      recoverPanic_def split: prod.splits option.splits)

text \<open>
  C2, as stated, asks for a 500 response whenever the wrapped handler panics. A handler
  that has already written to the response before it panics has fixed the status line
  and the headers: the later \<^verbatim>\<open>WriteHeader(500)\<close> is ignored and the \<^verbatim>\<open>Connection\<close>
  header set by \<open>logError\<close> is not part of what was sent.
\<close>

theorem recoverPanic_status_not_500_counterexample:
  "snd (writeThenPanicHandler exampleRequest newWorld) = Some ''boom'' \<and>
   status (rw (fst (recoverPanic ''trace'' writeThenPanicHandler exampleRequest newWorld))) = 200 \<and>
   map_of (sentHeader (rw (fst (recoverPanic ''trace'' writeThenPanicHandler exampleRequest newWorld))))
     ''Connection'' = None"
  by (simp add: recoverPanic_def writeThenPanicHandler_def rw_logError newWorld_def
      newResponseWriter_def Write_def rw_Write_def rw_WriteHeader_def Let_def)

text \<open>
  C2, amended: if the wrapped handler panics before anything of the response has been
  written, the wrapper returns normally, the response has status 500, its body is the
  text \<^verbatim>\<open>There was an error processing your request\<close> followed by a newline, the
  headers sent contain \<^verbatim>\<open>Connection: close\<close>, and the panic value and then the stack trace
  are logged at error severity.
\<close>

theorem recoverPanic_responds_500:
  assumes "next r s = (s', Some err)"
    and "\<not> wroteHeader (rw s')" and "written (rw s') = []"
  shows "snd (recoverPanic stack next r s) = None \<and>
     wroteHeader (rw (fst (recoverPanic stack next r s))) \<and>
     status (rw (fst (recoverPanic stack next r s))) = 500 \<and>
     written (rw (fst (recoverPanic stack next r s))) = errorBody \<and>
     map_of (sentHeader (rw (fst (recoverPanic stack next r s)))) ''Connection'' = Some ''close'' \<and>
     stdout (fst (recoverPanic stack next r s)) =
       stdout s' @ [Logrus ErrorLevel err, Logrus ErrorLevel stack]"
  using assms
  by (simp add: recoverPanic_def rw_logError stdout_logError rw_Write_def rw_WriteHeader_def
      Let_def update_conv')

theorem recoverPanic_responds_500_witness:
  "panicHandler exampleRequest newWorld = (newWorld, Some ''boom'') \<and>
   \<not> wroteHeader (rw newWorld) \<and> written (rw newWorld) = [] \<and>
   status (rw (fst (recoverPanic ''trace'' panicHandler exampleRequest newWorld))) = 500 \<and>
   written (rw (fst (recoverPanic ''trace'' panicHandler exampleRequest newWorld))) =
     ''There was an error processing your request'' @ [CHR 0x0A] \<and>
   stdout (fst (recoverPanic ''trace'' panicHandler exampleRequest newWorld)) =
     [Logrus ErrorLevel ''boom'', Logrus ErrorLevel ''trace'']"
proof -
  have h1: "panicHandler exampleRequest newWorld = (newWorld, Some ''boom'')"
    by (simp add: panicHandler_def)
  have h2: "\<not> wroteHeader (rw newWorld)" and h3: "written (rw newWorld) = []"
    by (simp_all add: newWorld_def newResponseWriter_def)
  show ?thesis
    using recoverPanic_responds_500
      [of panicHandler exampleRequest newWorld newWorld "''boom''" "''trace''", OF h1 h2 h3]
      h1 h2 h3
    by (simp add: errorBody_def newWorld_def)
qed

section \<open>Access logging\<close>

lemma exec_http_Error_prog:
  "exec (http_Error_prog msg code k) s = exec k (http_Error msg code s)"
  by (simp add: http_Error_prog_def http_Error_def)

lemma exec_logError_prog:
  "exec (logError_prog stack err t k) s = exec k (logError stack err t s)"
  by (simp add: logError_prog_def logError_def exec_http_Error_prog Let_def)

lemma exec_recoverPanic_prog:
  "exec (recoverPanic_prog stack p) s =
     (case exec p s of
        (s', None) \<Rightarrow> (s', None)
      | (s', Some err) \<Rightarrow> (logError stack err True s', None))"
  by (induction p arbitrary: s) (simp_all add: exec_logError_prog)

lemma exec_http_Redirect_prog:
  "exec (http_Redirect_prog r url code) s = (http_Redirect r url code s, None)"
  by (simp add: http_Redirect_prog_def http_Redirect_def Let_def Header_Set_def)

lemma exec_catchAllHandler_prog:
  "exec (catchAllHandler_prog redirect r) s = catchAllHandler redirect r s"
  by (simp add: catchAllHandler_prog_def catchAllHandler_def exec_http_Redirect_prog)

lemma middlewares_as_prog:
  "(\<lambda>r. exec (recoverPanic_prog stack (catchAllHandler_prog redirect r))) =
   recoverPanic stack (catchAllHandler redirect)"
  by (rule ext, rule ext)
     (simp add: exec_recoverPanic_prog recoverPanic_def exec_catchAllHandler_prog)

text \<open>
  A program cannot see the wrapper: run with and without it (or with another one), it
  leaves the same response, prints the same and ends the same way.
\<close>

lemma exec_lg:
  assumes "rw s = rw t" and "stdout s = stdout t"
  shows "rw (fst (exec p s)) = rw (fst (exec p t)) \<and>
         stdout (fst (exec p s)) = stdout (fst (exec p t)) \<and>
         snd (exec p s) = snd (exec p t)"
  using assms
proof (induction p arbitrary: s t)
  case (SetHeader k v p)
  show ?case using SetHeader.IH [of "Header_Set k v s" "Header_Set k v t"] SetHeader.prems
    by (simp add: Header_Set_def)
next
  case (ReadHeader f)
  show ?case using ReadHeader.IH [of "f (header (rw t))" s t] ReadHeader.prems
    by simp
next
  case (CallWriteHeader code p)
  show ?case using CallWriteHeader.IH [of "WriteHeader code s" "WriteHeader code t"]
      CallWriteHeader.prems
    by (simp add: WriteHeader_def)
next
  case (CallWrite b p)
  show ?case using CallWrite.IH [of "Write b s" "Write b t"] CallWrite.prems
    by (simp add: Write_def)
next
  case (LogError msg p)
  show ?case using LogError.IH [of "log_Error msg s" "log_Error msg t"] LogError.prems
    by (simp add: log_Error_def)
qed simp_all

lemma rw_WriteHeader_keeps:
  "header (rw_WriteHeader code w) = header w" "written (rw_WriteHeader code w) = written w"
  by (simp_all add: rw_WriteHeader_def)

lemma rw_Write_grows:
  "header (rw_Write b w) = header w" "written (rw_Write b w) = written w @ b"
  by (simp_all add: rw_Write_def Let_def rw_WriteHeader_keeps)

text \<open>
  What an installed logger has recorded when the program ends: the argument of the last
  \<^verbatim>\<open>WriteHeader\<close> call, and as many bytes more as the body has grown.
\<close>

lemma exec_logger:
  assumes "lg s = Some l"
  shows "\<exists>l'. lg (fst (exec p s)) = Some l' \<and>
           lstatus l' = lastWriteHeader p (header (rw s)) (lstatus l) \<and>
           lsize l' + length (written (rw s)) = lsize l + length (written (rw (fst (exec p s))))"
  using assms
proof (induction p arbitrary: s l)
  case (SetHeader k v p)
  show ?case using SetHeader.IH [of "Header_Set k v s" l] SetHeader.prems
    by (simp add: Header_Set_def)
next
  case (ReadHeader f)
  show ?case using ReadHeader.IH [of "f (header (rw s))" s l] ReadHeader.prems by simp
next
  case (CallWriteHeader code p)
  show ?case
    using CallWriteHeader.IH [of "WriteHeader code s" "l\<lparr>lstatus := code\<rparr>"]
      CallWriteHeader.prems
    by (simp add: WriteHeader_def rw_WriteHeader_keeps)
next
  case (CallWrite b p)
  show ?case
    using CallWrite.IH [of "Write b s" "l\<lparr>lsize := lsize l + length b\<rparr>"] CallWrite.prems
    by (auto simp: Write_def rw_Write_grows)
next
  case (LogError msg p)
  show ?case using LogError.IH [of "log_Error msg s" l] LogError.prems
    by (simp add: log_Error_def)
qed simp_all

lemma CombinedLoggingHandler_prog:
  assumes "snd (exec (P r) s) = None"
  shows "snd (CombinedLoggingHandler (\<lambda>r. exec (P r)) r s) = None \<and>
         rw (fst (CombinedLoggingHandler (\<lambda>r. exec (P r)) r s)) = rw (fst (exec (P r) s)) \<and>
         stdout (fst (CombinedLoggingHandler (\<lambda>r. exec (P r)) r s)) =
           stdout (fst (exec (P r) s)) @
             [Access r (lastWriteHeader (P r) (header (rw s)) 200)
                (length (written (rw (fst (exec (P r) s)))) - length (written (rw s)))]"
proof -
  let ?s0 = "s\<lparr>lg := Some makeLogger\<rparr>"
  obtain s1 v where run: "exec (P r) ?s0 = (s1, v)" by (cases "exec (P r) ?s0")
  have same: "rw s1 = rw (fst (exec (P r) s))" "stdout s1 = stdout (fst (exec (P r) s))"
    "v = snd (exec (P r) s)"
    using exec_lg [of ?s0 s "P r"] run by simp_all
  with assms have v: "v = None" by simp
  obtain l' where l': "lg s1 = Some l'"
    "lstatus l' = lastWriteHeader (P r) (header (rw s)) 200"
    "lsize l' + length (written (rw s)) = length (written (rw s1))"
    using exec_logger [of ?s0 makeLogger "P r"] run by (auto simp: makeLogger_def)
  have size: "lsize l' = length (written (rw (fst (exec (P r) s)))) - length (written (rw s))"
    using l'(3) same(1) by simp
  show ?thesis
    using run v same l'(1,2) size
    by (simp add: CombinedLoggingHandler_def loggerOf_def)
qed

text \<open>
  C7: for every request and every wrapped handler, given by the writer calls it makes,
  that completes: the logging middleware returns, it has appended exactly one access
  line, after everything the wrapped handler printed, carrying the request, the status
  last passed to \<^verbatim>\<open>WriteHeader\<close> (200 if none was) and the number of body bytes written;
  and the response (status, headers sent, body) is exactly the one the wrapped handler
  produces when it runs without the logging middleware.
\<close>

theorem loggingMiddleware_one_line:
  assumes "snd (exec (P r) s) = None"
  shows "snd (loggingMiddleware (\<lambda>r. exec (P r)) r s) = None \<and>
         rw (fst (loggingMiddleware (\<lambda>r. exec (P r)) r s)) = rw (fst (exec (P r) s)) \<and>
         stdout (fst (loggingMiddleware (\<lambda>r. exec (P r)) r s)) =
           stdout (fst (exec (P r) s)) @
             [Access r (lastWriteHeader (P r) (header (rw s)) 200)
                (length (written (rw (fst (exec (P r) s)))) - length (written (rw s)))]"
  unfolding loggingMiddleware_def using assms by (rule CombinedLoggingHandler_prog)

theorem loggingMiddleware_one_line_witness:
  "snd (exec (recoverPanic_prog ''trace'' (catchAllHandler_prog ''https://google.com'' exampleRequest))
         newWorld) = None \<and>
   rw (fst (middlewares ''trace'' (catchAllHandler ''https://google.com'') exampleRequest newWorld)) =
     rw (fst (recoverPanic ''trace'' (catchAllHandler ''https://google.com'') exampleRequest newWorld)) \<and>
   stdout (fst (middlewares ''trace'' (catchAllHandler ''https://google.com'') exampleRequest newWorld)) =
     [Access exampleRequest 301 53]"
proof -
  let ?P = "\<lambda>r. recoverPanic_prog ''trace'' (catchAllHandler_prog ''https://google.com'' r)"
  have ex: "exec (?P exampleRequest) newWorld =
      recoverPanic ''trace'' (catchAllHandler ''https://google.com'') exampleRequest newWorld"
    by (simp add: exec_recoverPanic_prog recoverPanic_def exec_catchAllHandler_prog)
  have h: "snd (exec (?P exampleRequest) newWorld) = None"
    by (simp add: ex recoverPanic_def catchAllHandler_def)
  have st: "lastWriteHeader (?P exampleRequest) (header (rw newWorld)) 200 = 301"
    by (simp add: catchAllHandler_prog_def http_Redirect_prog_def Let_def newWorld_def
        newResponseWriter_def exampleRequest_def)
  have out: "stdout (fst (recoverPanic ''trace'' (catchAllHandler ''https://google.com'')
      exampleRequest newWorld)) = []"
    by code_simp
  have sz: "length (written (rw (fst (recoverPanic ''trace''
      (catchAllHandler ''https://google.com'') exampleRequest newWorld)))) -
      length (written (rw newWorld)) = 53"
    by code_simp
  show ?thesis
    using loggingMiddleware_one_line [where P = ?P and r = exampleRequest and s = newWorld, OF h]
      h st out sz
    unfolding middlewares_as_prog ex middlewares_def
    by simp
qed

text \<open>
  For the handler that the router installs, the response is also the one that the inner
  handlers produce without the logging middleware around them.
\<close>

lemma rw_http_Redirect_lg:
  "rw (http_Redirect r url code (s\<lparr>lg := l\<rparr>)) = rw (http_Redirect r url code s)"
  by (simp add: http_Redirect_def Let_def Header_Set_def WriteHeader_def Write_def)

lemma middlewares_keep_redirect_response:
  "rw (fst (middlewares stack (catchAllHandler redirect) r s)) =
   rw (fst (recoverPanic stack (catchAllHandler redirect) r s))"
  by (simp add: middlewares_def loggingMiddleware_def CombinedLoggingHandler_def
      recoverPanic_def catchAllHandler_def rw_http_Redirect_lg)

text \<open>
  C9: the logging middleware is the outer one, so when the innermost handler panics the
  recovery middleware turns the panic into a normal return and the access line is still
  written, after the two error lines; the status it records is the 500 passed to
  \<^verbatim>\<open>WriteHeader\<close> by \<open>logError\<close>.
\<close>

theorem middlewares_log_panic_as_500:
  assumes "h r (s\<lparr>lg := Some makeLogger\<rparr>) = (s', Some err)" and "lg s' = Some l"
  shows "snd (middlewares stack h r s) = None \<and>
     stdout (fst (middlewares stack h r s)) =
       stdout s' @ [Logrus ErrorLevel err, Logrus ErrorLevel stack,
                    Access r 500 (lsize l + length errorBody)]"
  using assms
  by (simp add: middlewares_def loggingMiddleware_def CombinedLoggingHandler_def
      recoverPanic_def stdout_logError lg_logError loggerOf_def)

theorem middlewares_log_panic_as_500_witness:
  "writeThenPanicHandler exampleRequest (newWorld\<lparr>lg := Some makeLogger\<rparr>) =
     (Write ''partial'' (newWorld\<lparr>lg := Some makeLogger\<rparr>), Some ''boom'') \<and>
   lg (Write ''partial'' (newWorld\<lparr>lg := Some makeLogger\<rparr>)) = Some \<lparr>lstatus = 200, lsize = 7\<rparr> \<and>
   stdout (fst (middlewares ''trace'' writeThenPanicHandler exampleRequest newWorld)) =
     [Logrus ErrorLevel ''boom'', Logrus ErrorLevel ''trace'', Access exampleRequest 500 50] \<and>
   status (rw (fst (middlewares ''trace'' writeThenPanicHandler exampleRequest newWorld))) = 200"
proof -
  let ?s0 = "newWorld\<lparr>lg := Some makeLogger\<rparr>"
  have h1: "writeThenPanicHandler exampleRequest ?s0 = (Write ''partial'' ?s0, Some ''boom'')"
    by (simp add: writeThenPanicHandler_def)
  have h2: "lg (Write ''partial'' ?s0) = Some \<lparr>lstatus = 200, lsize = 7\<rparr>"
    by (simp add: Write_def makeLogger_def newWorld_def)
  have h3: "stdout (Write ''partial'' ?s0) = []"
    by (simp add: Write_def newWorld_def)
  have h4: "status (rw (fst (middlewares ''trace'' writeThenPanicHandler exampleRequest newWorld))) = 200"
    by (simp add: middlewares_def loggingMiddleware_def CombinedLoggingHandler_def
      recoverPanic_def writeThenPanicHandler_def rw_logError Write_def rw_Write_def
      rw_WriteHeader_def newWorld_def newResponseWriter_def Let_def)
  show ?thesis
    using middlewares_log_panic_as_500
      [of writeThenPanicHandler exampleRequest newWorld "Write ''partial'' ?s0" "''boom''"
          "\<lparr>lstatus = 200, lsize = 7\<rparr>" "''trace''", OF h1 h2]
      h1 h2 h3 h4
    by (simp add: errorBody_def)
qed

section \<open>The redirect\<close>

lemma hexEscapeNonASCII_ascii:
  "\<forall>c\<in>set s. (of_char c :: nat) < 128 \<Longrightarrow> hexEscapeNonASCII s = s"
  unfolding hexEscapeNonASCII_def by (induction s) auto

lemma cleanPath_rooted: "prefix ''/'' (cleanPath p)"
  by (auto simp: cleanPath_def path_Clean_def Let_def)

lemma cleanPath_fixed_rooted: "cleanPath p = p \<Longrightarrow> prefix ''/'' p"
  using cleanPath_rooted [of p] by simp

lemma redirectURL_absolute: "\<not> relativeReference url \<Longrightarrow> redirectURL r url = url"
  by (simp add: redirectURL_def)

lemma rw_http_Redirect_fresh:
  assumes "\<not> wroteHeader (rw s)"
  shows "wroteHeader (rw (http_Redirect r url code s)) \<and>
         status (rw (http_Redirect r url code s)) = code \<and>
         map_of (sentHeader (rw (http_Redirect r url code s))) ''Location'' =
           Some (hexEscapeNonASCII (redirectURL r url))"
  using assms
  by (simp add: http_Redirect_def Let_def Header_Set_def WriteHeader_def Write_def
      rw_WriteHeader_def rw_Write_def update_conv')

lemma rw_routes_clean:
  assumes "cleanPath (path r) = path r"
  shows "rw (fst (routes redirect stack r s)) =
         rw (http_Redirect r redirect 301 (s\<lparr>lg := Some makeLogger\<rparr>))"
    and "snd (routes redirect stack r s) = None"
  using assms cleanPath_fixed_rooted [of "path r"]
  by (simp_all add: routes_def middlewares_def loggingMiddleware_def CombinedLoggingHandler_def
      recoverPanic_def catchAllHandler_def)

text \<open>
  At the server: a request with a canonical path is answered inside the middlewares and
  gets exactly one access line, with status 301.
\<close>

lemma routes_access_line:
  assumes "cleanPath (path r) = path r"
  shows "stdout (fst (routes redirect stack r s)) =
         stdout s @ [Access r 301
           (length (written (rw (fst (routes redirect stack r s)))) - length (written (rw s)))]"
proof -
  let ?P = "\<lambda>r. recoverPanic_prog stack (catchAllHandler_prog redirect r)"
  have ex: "exec (?P r) s = (http_Redirect r redirect 301 s, None)"
    by (simp add: exec_recoverPanic_prog exec_catchAllHandler_prog catchAllHandler_def)
  have st: "lastWriteHeader (?P r) (header (rw s)) 200 = 301"
    by (simp add: catchAllHandler_prog_def http_Redirect_prog_def Let_def)
  have out: "stdout (http_Redirect r redirect 301 s) = stdout s"
    by (simp add: http_Redirect_def Let_def Header_Set_def WriteHeader_def Write_def)
  have rt: "routes redirect stack r s = middlewares stack (catchAllHandler redirect) r s"
    using assms cleanPath_fixed_rooted [of "path r"] by (simp add: routes_def)
  show ?thesis
    using CombinedLoggingHandler_prog [where P = ?P and r = r and s = s] ex st out
    unfolding middlewares_as_prog rt middlewares_def loggingMiddleware_def
    by simp
qed

lemma google_absolute: "\<not> relativeReference ''https://google.com''"
  by code_simp

lemma google_ascii: "\<forall>c\<in>set ''https://google.com''. (of_char c :: nat) < 128"
  by simp

lemma example_clean: "cleanPath (path exampleRequest) = path exampleRequest"
  by code_simp

text \<open>
  C1, as stated, promises the configured target in the \<^verbatim>\<open>Location\<close> header for every
  path. A request for \<^verbatim>\<open>//a\<close> is answered by the router's own redirect to the cleaned
  path \<^verbatim>\<open>/a\<close>, although the target is \<^verbatim>\<open>https://google.com\<close>.
\<close>

theorem routes_unclean_path_counterexample:
  "status (rw (fst (routes ''https://google.com'' ''trace'' uncleanRequest newWorld))) = 301 \<and>
   map_of (sentHeader (rw (fst (routes ''https://google.com'' ''trace'' uncleanRequest newWorld))))
     ''Location'' = Some ''/a'' \<and>
   map_of (sentHeader (rw (fst (routes ''https://google.com'' ''trace'' uncleanRequest newWorld))))
     ''Location'' \<noteq> Some ''https://google.com''"
  by (simp add: routes_def uncleanRequest_def cleanPath_def path_Clean_def Let_def
      WriteHeader_def Header_Set_def rw_WriteHeader_def newWorld_def newResponseWriter_def
      URL_String_def escapePath_def shouldEscapePath_def isAlpha_def isDigit_def)

text \<open>
  C1, amended: for every request whose path is in canonical form, whatever its method
  and query, when the configured target is not a relative reference and has no byte
  outside ASCII, the server answers with status 301 and a \<^verbatim>\<open>Location\<close> header equal to
  the target.
\<close>

theorem routes_redirects_to_target:
  assumes "cleanPath (path r) = path r"
    and "\<not> relativeReference redirect"
    and "\<forall>c\<in>set redirect. (of_char c :: nat) < 128"
    and "\<not> wroteHeader (rw s)"
  shows "snd (routes redirect stack r s) = None \<and>
         status (rw (fst (routes redirect stack r s))) = 301 \<and>
         map_of (sentHeader (rw (fst (routes redirect stack r s)))) ''Location'' = Some redirect"
proof -
  let ?s0 = "s\<lparr>lg := Some makeLogger\<rparr>"
  have fresh: "\<not> wroteHeader (rw ?s0)" using assms(4) by simp
  have url: "hexEscapeNonASCII (redirectURL r redirect) = redirect"
    using assms(2,3) by (simp add: redirectURL_absolute hexEscapeNonASCII_ascii)
  show ?thesis
    using rw_routes_clean [OF assms(1), of redirect stack s]
      rw_http_Redirect_fresh [OF fresh, of r redirect 301] url
    by simp
qed

theorem routes_redirects_to_target_witness:
  "cleanPath (path exampleRequest) = path exampleRequest \<and>
   \<not> relativeReference ''https://google.com'' \<and>
   list_all (\<lambda>c. (of_char c :: nat) < 128) ''https://google.com'' \<and>
   \<not> wroteHeader (rw newWorld) \<and>
   status (rw (fst (routes ''https://google.com'' ''trace'' exampleRequest newWorld))) = 301 \<and>
   map_of (sentHeader (rw (fst (routes ''https://google.com'' ''trace'' exampleRequest newWorld))))
     ''Location'' = Some ''https://google.com''"
proof -
  have h4: "\<not> wroteHeader (rw newWorld)"
    by (simp add: newWorld_def newResponseWriter_def)
  show ?thesis
    using routes_redirects_to_target [OF example_clean google_absolute google_ascii h4, of "''trace''"]
      example_clean google_absolute google_ascii h4
    by simp
qed

text \<open>
  C6, as stated, makes the handler's \<^verbatim>\<open>Location\<close> independent of the request path. With
  the relative target \<^verbatim>\<open>x\<close>, two requests that differ only in their path get different
  headers, because \<^verbatim>\<open>http.Redirect\<close> resolves such a target against the request path.
\<close>

theorem catchAllHandler_relative_target_counterexample:
  "map_of (sentHeader (rw (fst (catchAllHandler ''x'' (exampleRequest\<lparr>path := ''/a/b''\<rparr>) newWorld))))
     ''Location'' = Some ''/a/x'' \<and>
   map_of (sentHeader (rw (fst (catchAllHandler ''x'' (exampleRequest\<lparr>path := ''/c/d''\<rparr>) newWorld))))
     ''Location'' = Some ''/c/x''"
proof -
  have fresh: "\<not> wroteHeader (rw newWorld)"
    by (simp add: newWorld_def newResponseWriter_def)
  have rel: "relativeReference ''x''" by code_simp
  have a: "hexEscapeNonASCII (redirectURL (exampleRequest\<lparr>path := ''/a/b''\<rparr>) ''x'') = ''/a/x''"
    by code_simp
  have c: "hexEscapeNonASCII (redirectURL (exampleRequest\<lparr>path := ''/c/d''\<rparr>) ''x'') = ''/c/x''"
    by code_simp
  show ?thesis
    using rw_http_Redirect_fresh [OF fresh, of "exampleRequest\<lparr>path := ''/a/b''\<rparr>" "''x''" 301]
      rw_http_Redirect_fresh [OF fresh, of "exampleRequest\<lparr>path := ''/c/d''\<rparr>" "''x''" 301] a c
    by (simp add: catchAllHandler_def)
qed

text \<open>
  C6, amended: when the configured target is not a relative reference, the status and
  the \<^verbatim>\<open>Location\<close> header produced by the redirect handler are the same for any two
  requests that differ only in path, query (with the request URI they come from) or
  body.
\<close>

theorem catchAllHandler_independent_of_request:
  assumes "\<not> relativeReference redirect"
  shows "status (rw (fst (catchAllHandler redirect
                            (r\<lparr>requestURI := u, path := p, rawQuery := q, body := b\<rparr>) s))) =
         status (rw (fst (catchAllHandler redirect r s))) \<and>
         map_of (sentHeader (rw (fst (catchAllHandler redirect
                            (r\<lparr>requestURI := u, path := p, rawQuery := q, body := b\<rparr>) s))))
           ''Location'' =
         map_of (sentHeader (rw (fst (catchAllHandler redirect r s)))) ''Location''"
  using assms
  by (simp add: catchAllHandler_def http_Redirect_def redirectURL_absolute Let_def
      Header_Set_def WriteHeader_def Write_def rw_WriteHeader_def rw_Write_def)

theorem catchAllHandler_independent_of_request_witness:
  "\<not> relativeReference ''https://google.com'' \<and>
   status (rw (fst (catchAllHandler ''https://google.com''
      (exampleRequest\<lparr>requestURI := ''/c/d'', path := ''/c/d'', rawQuery := [], body := ''data''\<rparr>)
      newWorld))) =
   status (rw (fst (catchAllHandler ''https://google.com'' exampleRequest newWorld))) \<and>
   map_of (sentHeader (rw (fst (catchAllHandler ''https://google.com''
      (exampleRequest\<lparr>requestURI := ''/c/d'', path := ''/c/d'', rawQuery := [], body := ''data''\<rparr>)
      newWorld)))) ''Location'' =
   map_of (sentHeader (rw (fst (catchAllHandler ''https://google.com'' exampleRequest newWorld))))
     ''Location''"
  using catchAllHandler_independent_of_request
      [where redirect = "''https://google.com''" and r = exampleRequest and u = "''/c/d''"
         and p = "''/c/d''" and q = "[]" and b = "''data''" and s = newWorld,
       OF google_absolute]
    google_absolute
  by simp

section \<open>Shutdown and signals\<close>












text \<open>
  C8, as stated, has the goroutine log an error line on every clean shutdown. The main
  thread does not wait for the goroutine: in the schedule below \<^verbatim>\<open>ListenAndServe\<close> has
  returned \<^verbatim>\<open>ErrServerClosed\<close>, but the process exits with code 0 before the goroutine
  reaches \<^verbatim>\<open>log.Error\<close>, and no error line is printed.
\<close>

theorem exit_before_serve_logs_counterexample:
  "run [Deliver SIGTERM, Receive, ServeReturns ErrServerClosed, ShutdownReturns None]
       (started ''0.0.0.0:8080'' False) =
     Some \<lparr>mainState = Exited 0, serveState = Returned ErrServerClosed, sigc = [],
           printed = [Logrus InfoLevel ''Starting server on 0.0.0.0:8080'',
                      Logrus InfoLevel ''shutting down'']\<rparr> \<and>
   step ServeLogs
     \<lparr>mainState = Exited 0, serveState = Returned ErrServerClosed, sigc = [],
      printed = [Logrus InfoLevel ''Starting server on 0.0.0.0:8080'',
                 Logrus InfoLevel ''shutting down'']\<rparr> = None"
  by (simp add: step_def started_def)

text \<open>
  C8, amended: whatever error \<^verbatim>\<open>ListenAndServe\<close> has returned, \<^verbatim>\<open>ErrServerClosed\<close> after
  a clean \<^verbatim>\<open>Shutdown\<close> included, the goroutine logs it at error severity, unfiltered,
  whenever it gets to run before the process has exited.
\<close>

theorem serve_goroutine_logs_any_error:
  assumes "serveState p = Returned err" and "mainState p = Blocked \<or> mainState p = ShuttingDown"
  shows "step ServeLogs p =
           Some (p\<lparr>serveState := Finished, printed := printed p @ [Logrus ErrorLevel err]\<rparr>)"
  using assms by (auto simp: step_def)

theorem serve_goroutine_logs_any_error_witness:
  "run [Deliver SIGTERM, Receive, ServeReturns ErrServerClosed]
       (started ''0.0.0.0:8080'' False) =
     Some ((started ''0.0.0.0:8080'' False)
            \<lparr>mainState := ShuttingDown, serveState := Returned ErrServerClosed\<rparr>) \<and>
   run [ServeLogs, ShutdownReturns None]
       ((started ''0.0.0.0:8080'' False)
            \<lparr>mainState := ShuttingDown, serveState := Returned ErrServerClosed\<rparr>) =
     Some \<lparr>mainState = Exited 0, serveState = Finished, sigc = [],
           printed = [Logrus InfoLevel ''Starting server on 0.0.0.0:8080'',
                      Logrus ErrorLevel ''http: Server closed'',
                      Logrus InfoLevel ''shutting down'']\<rparr>"
proof -
  let ?p = "(started ''0.0.0.0:8080'' False)
            \<lparr>mainState := ShuttingDown, serveState := Returned ErrServerClosed\<rparr>"
  have h1: "serveState ?p = Returned ErrServerClosed" by simp
  have h2: "mainState ?p = Blocked \<or> mainState ?p = ShuttingDown" by simp
  have r: "run [Deliver SIGTERM, Receive, ServeReturns ErrServerClosed]
       (started ''0.0.0.0:8080'' False) = Some ?p"
    by (simp add: step_def started_def)
  show ?thesis
    using serve_goroutine_logs_any_error [OF h1 h2] r
    by (simp add: step_def started_def ErrServerClosed_def)
qed

text \<open>
  C10: once the main thread is in \<^verbatim>\<open>Shutdown\<close>, any number of further signals leaves it
  there: they do not end the process, print nothing, do not touch the serving
  goroutine, and the main thread does not read the channel again.
\<close>

theorem later_signals_ignored:
  assumes "mainState p = ShuttingDown"
  shows "\<exists>p'. run (map Deliver sigs) p = Some p' \<and>
           mainState p' = ShuttingDown \<and> serveState p' = serveState p \<and>
           printed p' = printed p \<and> step Receive p' = None"
  using assms
proof (induction sigs arbitrary: p)
  case Nil
  then show ?case by (simp add: step_def)
next
  case (Cons sg sigs)
  let ?q = "p\<lparr>sigc := (if length (sigc p) < 1 then sigc p @ [sg] else sigc p)\<rparr>"
  have s: "step (Deliver sg) p = Some ?q"
    using Cons.prems by (simp add: step_def)
  have "mainState ?q = ShuttingDown" using Cons.prems by simp
  from Cons.IH [OF this] s show ?case by simp
qed

theorem later_signals_ignored_witness:
  "run [Deliver SIGINT, Receive] (started ''0.0.0.0:8080'' False) =
     Some ((started ''0.0.0.0:8080'' False)\<lparr>mainState := ShuttingDown\<rparr>) \<and>
   (\<exists>p'. run (map Deliver [SIGINT, SIGTERM, SIGINT])
             ((started ''0.0.0.0:8080'' False)\<lparr>mainState := ShuttingDown\<rparr>) = Some p' \<and>
      mainState p' = ShuttingDown \<and>
      printed p' = [Logrus InfoLevel ''Starting server on 0.0.0.0:8080''] \<and>
      step Receive p' = None)"
proof -
  let ?p = "(started ''0.0.0.0:8080'' False)\<lparr>mainState := ShuttingDown\<rparr>"
  have h: "mainState ?p = ShuttingDown" by simp
  have r: "run [Deliver SIGINT, Receive] (started ''0.0.0.0:8080'' False) = Some ?p"
    by (simp add: step_def started_def)
  have pr: "printed ?p = [Logrus InfoLevel ''Starting server on 0.0.0.0:8080'']"
    by (simp add: started_def)
  from later_signals_ignored [OF h, of "[SIGINT, SIGTERM, SIGINT]"] r pr
  show ?thesis by auto
qed

end
